theory Spec2Isabelle
  imports Complex_Main "HOL-Library.AList"
begin

section \<open>Python values, dictionaries and the files of the review system\<close>

text \<open>
  The values a dictionary of \<^verbatim>\<open>ReviewSystem\<close> can hold: what \<^verbatim>\<open>json.loads\<close> produces,
  and \<^verbatim>\<open>datetime\<close> objects. Conventions of the whole development:
  \<^item> a number stored in a dictionary (a Python \<^verbatim>\<open>float\<close> or \<^verbatim>\<open>int\<close>) is a real number:
    arithmetic is exact, without rounding or overflow; the arithmetic of the selection is
    carried out on floats that also have NaN and the two infinities;
  \<^item> a naive \<^verbatim>\<open>datetime\<close> is its number of microseconds since 0001-01-01T00:00:00, a
    \<^verbatim>\<open>timedelta\<close> a number of microseconds; arithmetic that leaves the years 1 to 9999
    raises \<^verbatim>\<open>OverflowError\<close>;
  \<^item> a \<^verbatim>\<open>dict\<close> with string keys is an association list in insertion order.
\<close>

datatype pyval =
    PNone
  | PBool bool
  | PNum real
  | PStr string
  | PTime int
  | PList "pyval list"
  | PDict "(string \<times> pyval) list"

type_synonym pydict = "(string \<times> pyval) list"

datatype error =
  TypeError | KeyError | ValueError | AttributeError | IndexError | OverflowError
  | ZeroDivisionError

text \<open>The number a value stands for in arithmetic (\<^verbatim>\<open>bool\<close> is a subclass of \<^verbatim>\<open>int\<close>);
  \<open>None\<close> where the arithmetic of the source raises \<^verbatim>\<open>TypeError\<close>.\<close>

fun num_of :: "pyval \<Rightarrow> real option" where
  "num_of (PNum x) = Some x"
| "num_of (PBool b) = Some (if b then 1 else 0)"
| "num_of PNone = None"
| "num_of (PStr s) = None"
| "num_of (PTime t) = None"
| "num_of (PList xs) = None"
| "num_of (PDict kvs) = None"

text \<open>\<^verbatim>\<open>isinstance(value, (int, float))\<close>\<close>

fun is_number :: "pyval \<Rightarrow> bool" where
  "is_number (PNum x) = True"
| "is_number (PBool b) = True"
| "is_number PNone = False"
| "is_number (PStr s) = False"
| "is_number (PTime t) = False"
| "is_number (PList xs) = False"
| "is_number (PDict kvs) = False"

text \<open>What \<^verbatim>\<open>json.dump\<close> accepts: everything but a \<^verbatim>\<open>datetime\<close>, at any depth.\<close>

fun serializable :: "pyval \<Rightarrow> bool" where
  "serializable (PTime t) = False"
| "serializable (PList xs) = (\<forall>v \<in> set xs. serializable v)"
| "serializable (PDict kvs) = (\<forall>v \<in> set (map snd kvs). serializable v)"
| "serializable PNone = True"
| "serializable (PBool b) = True"
| "serializable (PNum x) = True"
| "serializable (PStr s) = True"

text \<open>\<^verbatim>\<open>d.get(k, default)\<close>, \<^verbatim>\<open>k in d\<close>, \<^verbatim>\<open>if k not in d: d[k] = v\<close>; the assignment
  \<^verbatim>\<open>d[k] = v\<close> is \<open>AList.update k v d\<close>, which keeps the position of a key already there.\<close>

definition dict_get :: "pydict \<Rightarrow> string \<Rightarrow> pyval \<Rightarrow> pyval" where
  "dict_get d k dflt = (case map_of d k of None \<Rightarrow> dflt | Some v \<Rightarrow> v)"

definition dict_has :: "pydict \<Rightarrow> string \<Rightarrow> bool" where
  "dict_has d k = (map_of d k \<noteq> None)"

definition setdefault :: "pydict \<Rightarrow> string \<Rightarrow> pyval \<Rightarrow> pydict" where
  "setdefault d k v = (if dict_has d k then d else AList.update k v d)"

text \<open>\<^verbatim>\<open>d[k]\<close> read as a number: \<^verbatim>\<open>KeyError\<close> without the key, \<^verbatim>\<open>TypeError\<close> when the
  arithmetic that follows cannot use the value.\<close>

definition num_item :: "pydict \<Rightarrow> string \<Rightarrow> error + real" where
  "num_item d k =
     (case map_of d k of
        None \<Rightarrow> Inl KeyError
      | Some v \<Rightarrow> (case num_of v of None \<Rightarrow> Inl TypeError | Some x \<Rightarrow> Inr x))"

text \<open>
  The file at \<^verbatim>\<open>self.weights_file\<close>, by what \<^verbatim>\<open>load_weights\<close> can find there: no file, a file
  that cannot be read, a text that is empty after \<^verbatim>\<open>strip()\<close>, a text \<^verbatim>\<open>json.loads\<close> rejects,
  a text \<^verbatim>\<open>json.loads\<close> parses to a value.
\<close>

datatype file_content = Missing | Unreadable | Blank | Garbage | Doc pyval

text \<open>
  What a call depends on besides the object: the clock, the outcome of the write
  (\<open>None\<close>: it goes through; \<open>Some f\<close>: \<^verbatim>\<open>os.makedirs\<close>, \<^verbatim>\<open>open\<close> or \<^verbatim>\<open>write\<close> raises and leaves
  the file as \<open>f\<close>), the two library functions on timestamps, and the index array
  that the random generator hands out.
\<close>

record env =
  now :: int
  write_fault :: "file_content option"
  isoformat :: "int \<Rightarrow> string"
  fromisoformat :: "string \<Rightarrow> int option"
  drawn :: "nat list"

text \<open>The object: its three dictionaries, the name table, and the contents of the two
  paths it holds (the weights file, and the subject folders of the data directory with
  their file names).\<close>

record review_system =
  weights :: pydict
  last_reviewed :: pydict
  review_intervals :: pydict
  subject_mapping :: pyval
  weights_file :: file_content
  data_dir :: "(string \<times> string list) list"

section \<open>Persistence\<close>

definition save_weights :: "env \<Rightarrow> review_system \<Rightarrow> review_system" where
  "save_weights e st =
     (let last_reviewed_serializable =
            map (\<lambda>(key, value). (key, case value of PTime t \<Rightarrow> PStr (isoformat e t) | _ \<Rightarrow> value))
              (last_reviewed st);
          serializable_weights = filter (\<lambda>(key, value). is_number value) (weights st);
          serializable_intervals = filter (\<lambda>(key, value). is_number value) (review_intervals st);
          data = PDict [(''subject_mapping'', subject_mapping st),
                        (''weights'', PDict serializable_weights),
                        (''last_reviewed'', PDict last_reviewed_serializable),
                        (''review_intervals'', PDict serializable_intervals)]
      in case write_fault e of
           Some left \<Rightarrow> st\<lparr>weights_file := left\<rparr>
         | None \<Rightarrow>
             if serializable data then st\<lparr>weights_file := Doc data\<rparr>
             else st\<lparr>weights_file := Garbage\<rparr>)"

section \<open>Recording feedback\<close>

definition update_weight ::
  "string \<Rightarrow> string option \<Rightarrow> env \<Rightarrow> review_system \<Rightarrow> error + review_system" where
  "update_weight image_key familiarity e st =
     (let ws = setdefault (weights st) image_key (PNum 1);
          lr0 = setdefault (last_reviewed st) image_key PNone;
          ivs = setdefault (review_intervals st) image_key (PNum 1);
          lr = AList.update image_key (PTime (now e)) lr0
      in case
           (if familiarity = Some ''familiar'' then
              (case num_item ivs image_key of
                 Inl x \<Rightarrow> Inl x
               | Inr i \<Rightarrow>
                   (case num_item ws image_key of
                      Inl x \<Rightarrow> Inl x
                    | Inr w \<Rightarrow>
                        Inr (AList.update image_key (PNum (min 30 (i * 2))) ivs,
                             w * exp (- 0.1))))
            else if familiarity = Some ''blur'' then
              (case num_item ivs image_key of
                 Inl x \<Rightarrow> Inl x
               | Inr i \<Rightarrow>
                   (case num_item ws image_key of
                      Inl x \<Rightarrow> Inl x
                    | Inr w \<Rightarrow>
                        Inr (AList.update image_key (PNum (max 1 (i * 1.2))) ivs, w * 0.95)))
            else if familiarity = Some ''strange'' then
              (case num_item ivs image_key of
                 Inl x \<Rightarrow> Inl x
               | Inr i \<Rightarrow>
                   (case num_item ws image_key of
                      Inl x \<Rightarrow> Inl x
                    | Inr w \<Rightarrow>
                        Inr (AList.update image_key (PNum (max 0.1 (i * 0.5))) ivs,
                             min 10 (w * 1.5))))
            else
              (case num_item ws image_key of
                 Inl x \<Rightarrow> Inl x
               | Inr w \<Rightarrow> Inr (ivs, w * 0.9)))
         of
           Inl x \<Rightarrow> Inl x
         | Inr (ivs', w') \<Rightarrow>
             Inr (save_weights e
                    (st\<lparr>weights := AList.update image_key (PNum (max 0.1 (min 10 w'))) ws,
                        last_reviewed := lr,
                        review_intervals := ivs'\<rparr>)))"

text \<open>The state of one item as the callers read it: \<^verbatim>\<open>weights.get(key, 1.0)\<close>,
  \<^verbatim>\<open>last_reviewed.get(key)\<close>, \<^verbatim>\<open>review_intervals.get(key, 1.0)\<close>.\<close>

definition weight_of :: "review_system \<Rightarrow> string \<Rightarrow> real option" where
  "weight_of st k = num_of (dict_get (weights st) k (PNum 1))"

definition interval_of :: "review_system \<Rightarrow> string \<Rightarrow> real option" where
  "interval_of st k = num_of (dict_get (review_intervals st) k (PNum 1))"

definition reviewed_at :: "review_system \<Rightarrow> string \<Rightarrow> pyval" where
  "reviewed_at st k = dict_get (last_reviewed st) k PNone"

text \<open>The update table of the specification, on a pair of weight and interval, and its
  final clamp.\<close>

definition feedback_table :: "string option \<Rightarrow> real \<times> real \<Rightarrow> real \<times> real" where
  "feedback_table label wi =
     (let w = fst wi; i = snd wi
      in if label = Some ''familiar'' then (w * exp (- 0.1), min 30 (i * 2))
         else if label = Some ''blur'' then (w * 0.95, max 1 (i * 1.2))
         else if label = Some ''strange'' then (min 10 (w * 1.5), max 0.1 (i * 0.5))
         else (w * 0.9, i))"

definition clamp_weight :: "real \<Rightarrow> real" where
  "clamp_weight w = max 0.1 (min 10 w)"

definition known_label :: "string option \<Rightarrow> bool" where
  "known_label label =
     (label = Some ''familiar'' \<or> label = Some ''blur'' \<or> label = Some ''strange'')"


text \<open>The ranges of the data model, on every entry of a dictionary.\<close>

definition num_within :: "real \<Rightarrow> real \<Rightarrow> pyval \<Rightarrow> bool" where
  "num_within lo hi v = (case num_of v of None \<Rightarrow> False | Some x \<Rightarrow> lo \<le> x \<and> x \<le> hi)"

definition num_at_least :: "real \<Rightarrow> pyval \<Rightarrow> bool" where
  "num_at_least lo v = (case num_of v of None \<Rightarrow> False | Some x \<Rightarrow> lo \<le> x)"

definition weights_in_range :: "review_system \<Rightarrow> bool" where
  "weights_in_range st = list_all (\<lambda>kv. num_within 0.1 10 (snd kv)) (weights st)"

definition intervals_in_range :: "review_system \<Rightarrow> bool" where
  "intervals_in_range st = list_all (\<lambda>kv. num_within 0.1 30 (snd kv)) (review_intervals st)"

definition intervals_at_least :: "review_system \<Rightarrow> bool" where
  "intervals_at_least st = list_all (\<lambda>kv. num_at_least 0.1 (snd kv)) (review_intervals st)"

text \<open>Last-review entries as the data model has them: \<^verbatim>\<open>None\<close> or a timestamp.\<close>

fun never_or_time :: "pyval \<Rightarrow> bool" where
  "never_or_time PNone = True"
| "never_or_time (PTime t) = True"
| "never_or_time (PBool b) = False"
| "never_or_time (PNum x) = False"
| "never_or_time (PStr s) = False"
| "never_or_time (PList xs) = False"
| "never_or_time (PDict kvs) = False"

definition timestamps :: "review_system \<Rightarrow> bool" where
  "timestamps st = list_all (\<lambda>kv. never_or_time (snd kv)) (last_reviewed st)"

text \<open>A sequence of feedback calls, each with its key, its label and its own clock and
  disk; an exception ends it.\<close>

fun record_all ::
  "(string \<times> string option \<times> env) list \<Rightarrow> review_system \<Rightarrow> error + review_system" where
  "record_all [] st = Inr st"
| "record_all ((k, label, e) # calls) st =
     (case update_weight k label e st of Inl x \<Rightarrow> Inl x | Inr st' \<Rightarrow> record_all calls st')"

subsection \<open>The route \<^verbatim>\<open>/api/update_weight\<close>\<close>

text \<open>The JSON body of the request, with the fields it is meant to have: two strings and
  a number, each possibly absent. A character of a Python string is one \<open>char\<close> here.\<close>

record request =
  req_image_key :: "string option"
  req_familiarity :: "string option"
  req_weight :: "real option"

datatype response = Success | BadRequest

text \<open>Truth value of an optional string: \<^verbatim>\<open>None\<close> and \<^verbatim>\<open>""\<close> are false.\<close>

definition truthy :: "string option \<Rightarrow> bool" where
  "truthy s = (s \<noteq> None \<and> s \<noteq> Some [])"

text \<open>The key with its subject replaced by the subject's code, as the route does before it
  touches the dictionaries.\<close>

definition encoded_key :: "pyval \<Rightarrow> string \<Rightarrow> error + string" where
  "encoded_key mapping key =
     (if CHR ''/'' \<in> set key then
        (let subject = takeWhile (\<lambda>c. c \<noteq> CHR ''/'') key;
             filename = tl (dropWhile (\<lambda>c. c \<noteq> CHR ''/'') key)
         in if take 1 subject \<noteq> ''S'' \<or> length subject \<noteq> 4 then
              (case mapping of
                 PDict m \<Rightarrow>
                   (case find (\<lambda>(encoded, original). original = PStr subject) m of
                      None \<Rightarrow> Inr key
                    | Some (encoded, original) \<Rightarrow> Inr (encoded @ ''/'' @ filename))
               | _ \<Rightarrow> Inl AttributeError)
            else Inr key)
      else Inr key)"

text \<open>The route: \<open>Inl\<close> is an exception that leaves the handler (an HTTP 500), \<open>Inr\<close> the
  JSON status it returns with the object as the call leaves it.\<close>

definition api_update_weight ::
  "request \<Rightarrow> env \<Rightarrow> review_system \<Rightarrow> error + (response \<times> review_system)" where
  "api_update_weight data e st =
     (case req_image_key data of
        None \<Rightarrow> Inr (BadRequest, st)
      | Some key \<Rightarrow>
          if key \<noteq> [] \<and> (truthy (req_familiarity data) \<or> req_weight data \<noteq> None) then
            (case encoded_key (subject_mapping st) key of
               Inl x \<Rightarrow> Inl x
             | Inr image_key \<Rightarrow>
                 if truthy (req_familiarity data) then
                   (case update_weight image_key (req_familiarity data) e st of
                      Inl x \<Rightarrow> Inl x
                    | Inr st' \<Rightarrow> Inr (Success, st'))
                 else
                   (case req_weight data of
                      Some x \<Rightarrow>
                        Inr (Success,
                             save_weights e
                               (st\<lparr>weights := AList.update image_key (PNum x) (weights st)\<rparr>))
                    | None \<Rightarrow> Inr (Success, st)))
          else Inr (BadRequest, st))"

section \<open>Selecting items for review\<close>

subsection \<open>Timestamps\<close>

text \<open>The last instant a \<^verbatim>\<open>datetime\<close> can hold, 9999-12-31T23:59:59.999999, in
  microseconds since 0001-01-01T00:00:00.\<close>

definition max_datetime :: int where
  "max_datetime = 315537897599999999"

definition round_half_even :: "real \<Rightarrow> int" where
  "round_half_even x =
     (let f = \<lfloor>x\<rfloor>; r = x - of_int f
      in if r < 1 / 2 then f else if 1 / 2 < r then f + 1 else if even f then f else f + 1)"

text \<open>The microseconds of \<^verbatim>\<open>timedelta(days=d)\<close> (the constructor rounds half to even), and
  the constructor itself, which refuses more than 999999999 days either way.\<close>

definition timedelta_us :: "real \<Rightarrow> int" where
  "timedelta_us d = round_half_even (d * 86400000000)"

definition timedelta_days :: "real \<Rightarrow> error + int" where
  "timedelta_days d =
     (let us = timedelta_us d; days = us div 86400000000
      in if days < - 999999999 \<or> 999999999 < days then Inl OverflowError else Inr us)"

text \<open>\<^verbatim>\<open>datetime + timedelta\<close>: the result has to be a \<^verbatim>\<open>datetime\<close>.\<close>

definition datetime_add :: "int \<Rightarrow> int \<Rightarrow> error + int" where
  "datetime_add t delta =
     (if t + delta < 0 \<or> max_datetime < t + delta then Inl OverflowError else Inr (t + delta))"

definition total_seconds :: "int \<Rightarrow> real" where
  "total_seconds us = of_int us / 1000000"



subsection \<open>Floats\<close>

text \<open>
  A float of the selection arithmetic: a real number, or one of the three values that
  \<^verbatim>\<open>np.isfinite\<close> rejects. Sums, products and quotients of real numbers are exact; the
  special values combine as in IEEE-754. Division by zero raises \<^verbatim>\<open>ZeroDivisionError\<close>.
\<close>

datatype pyfloat = Fin real | PosInf | NegInf | NaN

fun np_isfinite :: "pyfloat \<Rightarrow> bool" where
  "np_isfinite (Fin x) = True"
| "np_isfinite PosInf = False"
| "np_isfinite NegInf = False"
| "np_isfinite NaN = False"

fun fadd :: "pyfloat \<Rightarrow> pyfloat \<Rightarrow> pyfloat" where
  "fadd (Fin a) (Fin b) = Fin (a + b)"
| "fadd (Fin a) PosInf = PosInf"
| "fadd (Fin a) NegInf = NegInf"
| "fadd (Fin a) NaN = NaN"
| "fadd PosInf (Fin b) = PosInf"
| "fadd PosInf PosInf = PosInf"
| "fadd PosInf NegInf = NaN"
| "fadd PosInf NaN = NaN"
| "fadd NegInf (Fin b) = NegInf"
| "fadd NegInf PosInf = NaN"
| "fadd NegInf NegInf = NegInf"
| "fadd NegInf NaN = NaN"
| "fadd NaN y = NaN"

fun fmul :: "pyfloat \<Rightarrow> pyfloat \<Rightarrow> pyfloat" where
  "fmul (Fin a) (Fin b) = Fin (a * b)"
| "fmul (Fin a) PosInf = (if a = 0 then NaN else if 0 < a then PosInf else NegInf)"
| "fmul (Fin a) NegInf = (if a = 0 then NaN else if 0 < a then NegInf else PosInf)"
| "fmul (Fin a) NaN = NaN"
| "fmul PosInf (Fin b) = (if b = 0 then NaN else if 0 < b then PosInf else NegInf)"
| "fmul PosInf PosInf = PosInf"
| "fmul PosInf NegInf = NegInf"
| "fmul PosInf NaN = NaN"
| "fmul NegInf (Fin b) = (if b = 0 then NaN else if 0 < b then NegInf else PosInf)"
| "fmul NegInf PosInf = NegInf"
| "fmul NegInf NegInf = PosInf"
| "fmul NegInf NaN = NaN"
| "fmul NaN y = NaN"

fun fdiv :: "pyfloat \<Rightarrow> pyfloat \<Rightarrow> error + pyfloat" where
  "fdiv (Fin a) (Fin b) = (if b = 0 then Inl ZeroDivisionError else Inr (Fin (a / b)))"
| "fdiv PosInf (Fin b) =
     (if b = 0 then Inl ZeroDivisionError else Inr (if 0 < b then PosInf else NegInf))"
| "fdiv NegInf (Fin b) =
     (if b = 0 then Inl ZeroDivisionError else Inr (if 0 < b then NegInf else PosInf))"
| "fdiv NaN (Fin b) = (if b = 0 then Inl ZeroDivisionError else Inr NaN)"
| "fdiv (Fin a) PosInf = Inr (Fin 0)"
| "fdiv (Fin a) NegInf = Inr (Fin 0)"
| "fdiv PosInf PosInf = Inr NaN"
| "fdiv PosInf NegInf = Inr NaN"
| "fdiv NegInf PosInf = Inr NaN"
| "fdiv NegInf NegInf = Inr NaN"
| "fdiv NaN PosInf = Inr NaN"
| "fdiv NaN NegInf = Inr NaN"
| "fdiv x NaN = Inr NaN"

text \<open>\<^verbatim>\<open>x > 0\<close>, \<^verbatim>\<open>x == 0\<close>, and \<^verbatim>\<open>sum(xs)\<close>, which adds from the left starting at 0.\<close>

fun above_zero :: "pyfloat \<Rightarrow> bool" where
  "above_zero (Fin x) = (0 < x)"
| "above_zero PosInf = True"
| "above_zero NegInf = False"
| "above_zero NaN = False"

fun is_zero :: "pyfloat \<Rightarrow> bool" where
  "is_zero (Fin x) = (x = 0)"
| "is_zero PosInf = False"
| "is_zero NegInf = False"
| "is_zero NaN = False"

definition fsum :: "pyfloat list \<Rightarrow> pyfloat" where
  "fsum xs = foldl fadd (Fin 0) xs"

subsection \<open>Priorities\<close>

text \<open>The arithmetic of the loop body for an item reviewed before, from its weight and
  the seconds until it is due.\<close>

definition raw_priority :: "pyfloat \<Rightarrow> real \<Rightarrow> error + pyfloat" where
  "raw_priority weight time_until_review =
     (if time_until_review \<le> 0
      then Inr (fadd (Fin \<bar>time_until_review\<bar>) (fmul weight (Fin 1000)))
      else fdiv (fmul weight (Fin 1000)) (Fin (max 0.1 (time_until_review / 3600))))"

text \<open>\<^verbatim>\<open>if not np.isfinite(priority): priority = 1.0\<close>\<close>

definition checked :: "pyfloat \<Rightarrow> pyfloat" where
  "checked p = (if np_isfinite p then p else Fin 1)"

text \<open>
  The body of the loop over the images: the priority of one image, or the exception it
  raises. The sum \<^verbatim>\<open>last_reviewed + timedelta(days=review_interval)\<close> builds the
  \<^verbatim>\<open>timedelta\<close> first (\<^verbatim>\<open>TypeError\<close> for an interval that is no number, \<^verbatim>\<open>OverflowError\<close>
  beyond its limit), then adds (\<^verbatim>\<open>TypeError\<close> when the last review is no \<^verbatim>\<open>datetime\<close>,
  \<^verbatim>\<open>OverflowError\<close> past the year 9999).
\<close>

definition priority :: "env \<Rightarrow> review_system \<Rightarrow> string \<Rightarrow> error + pyfloat" where
  "priority e st img =
     (let weight = dict_get (weights st) img (PNum 1);
          reviewed = dict_get (last_reviewed st) img PNone;
          review_interval = dict_get (review_intervals st) img (PNum 1)
      in case
           (case reviewed of
              PNone \<Rightarrow> Inr (Fin 1000000)
            | _ \<Rightarrow>
                (case num_of review_interval of
                   None \<Rightarrow> Inl TypeError
                 | Some d \<Rightarrow>
                     (case timedelta_days d of
                        Inl x \<Rightarrow> Inl x
                      | Inr delta \<Rightarrow>
                          (case reviewed of
                             PTime t \<Rightarrow>
                               (case datetime_add t delta of
                                  Inl x \<Rightarrow> Inl x
                                | Inr next_review_time \<Rightarrow>
                                    (case num_of weight of
                                       None \<Rightarrow> Inl TypeError
                                     | Some w \<Rightarrow>
                                         raw_priority (Fin w)
                                           (total_seconds (next_review_time - now e))))
                           | _ \<Rightarrow> Inl TypeError))))
         of
           Inl x \<Rightarrow> Inl x
         | Inr p \<Rightarrow> Inr (checked p))"

text \<open>A loop that appends one result per element and stops at the first exception.\<close>

fun collect :: "(error + 'a) list \<Rightarrow> error + 'a list" where
  "collect [] = Inr []"
| "collect (Inl x # rs) = Inl x"
| "collect (Inr v # rs) = (case collect rs of Inl x \<Rightarrow> Inl x | Inr vs \<Rightarrow> Inr (v # vs))"

subsection \<open>Probabilities\<close>

text \<open>\<^verbatim>\<open>[1.0 / len(xs)] * len(xs)\<close>\<close>

definition uniform_vector :: "nat \<Rightarrow> error + pyfloat list" where
  "uniform_vector n = (case fdiv (Fin 1) (Fin (real n)) of Inl x \<Rightarrow> Inl x | Inr u \<Rightarrow> Inr (replicate n u))"

text \<open>The first normalisation: the priorities over their sum, or the uniform vector.\<close>

definition normalized :: "pyfloat list \<Rightarrow> error + pyfloat list" where
  "normalized priorities =
     (let total_priority = fsum priorities
      in if above_zero total_priority \<and> np_isfinite total_priority
         then collect (map (\<lambda>p. fdiv p total_priority) priorities)
         else uniform_vector (length priorities))"

text \<open>The second one: entries that are not finite become 0, then the vector is divided by
  its sum, or replaced by the uniform vector when the sum is 0.\<close>

definition rezeroed :: "pyfloat list \<Rightarrow> pyfloat list" where
  "rezeroed probabilities = map (\<lambda>p. if np_isfinite p then p else Fin 0) probabilities"

definition renormalized :: "pyfloat list \<Rightarrow> error + pyfloat list" where
  "renormalized probabilities =
     (let probabilities' = rezeroed probabilities;
          prob_sum = fsum probabilities'
      in if is_zero prob_sum
         then uniform_vector (length probabilities')
         else collect (map (\<lambda>p. fdiv p prob_sum) probabilities'))"

text \<open>From the priorities to the probability vector handed to the sampler.\<close>

definition review_probabilities :: "pyfloat list \<Rightarrow> error + pyfloat list" where
  "review_probabilities priorities =
     (case normalized priorities of Inl x \<Rightarrow> Inl x | Inr probabilities \<Rightarrow> renormalized probabilities)"

subsection \<open>Sampling\<close>

text \<open>The real numbers of a vector of floats, when all of them are finite.\<close>

fun finite_value :: "pyfloat \<Rightarrow> real option" where
  "finite_value (Fin x) = Some x"
| "finite_value PosInf = None"
| "finite_value NegInf = None"
| "finite_value NaN = None"

text \<open>
  \<^verbatim>\<open>np.random.choice(n, size=sz, replace=False, p=p)\<close> is library code. Its argument
  checks are written out: each raises \<^verbatim>\<open>ValueError\<close>; a vector with NaN or an infinity
  fails one of them; the sum of \<open>p\<close> may miss 1 by the square root of the machine
  epsilon. Past them it returns the index array the generator
  drew, which the caller of the model supplies. \<open>valid_draw\<close> says what the library
  promises of that array: as many indices as asked for, distinct, all below \<open>n\<close>.
\<close>

definition np_random_choice :: "nat \<Rightarrow> int \<Rightarrow> pyfloat list \<Rightarrow> nat list \<Rightarrow> error + nat list" where
  "np_random_choice n sz probabilities draw =
     (if length probabilities \<noteq> n then Inl ValueError
      else
        (case those (map finite_value probabilities) of
           None \<Rightarrow> Inl ValueError
         | Some p \<Rightarrow>
             if \<exists>x \<in> set p. x < 0 then Inl ValueError
             else if 1 / 2 ^ 26 < \<bar>sum_list p - 1\<bar> then Inl ValueError
             else if int n < sz then Inl ValueError
             else if sz < 0 then Inl ValueError
             else if int (length (filter (\<lambda>x. 0 < x) p)) < sz then Inl ValueError
             else Inr draw))"

definition valid_draw :: "nat \<Rightarrow> int \<Rightarrow> nat list \<Rightarrow> bool" where
  "valid_draw n sz draw = (int (length draw) = sz \<and> distinct draw \<and> (\<forall>i \<in> set draw. i < n))"

text \<open>\<open>select_images_for_review\<close> from its second statement on: \<open>images\<close> is the list
  that \<^verbatim>\<open>self.get_images_for_subject(subject)\<close> returned.\<close>

definition select_images_for_review ::
  "string list \<Rightarrow> int \<Rightarrow> env \<Rightarrow> review_system \<Rightarrow> error + string list" where
  "select_images_for_review images count e st =
     (if images = [] then Inr []
      else
        (case collect (map (priority e st) images) of
           Inl x \<Rightarrow> Inl x
         | Inr priorities \<Rightarrow>
             (case review_probabilities priorities of
                Inl x \<Rightarrow> Inl x
              | Inr probabilities \<Rightarrow>
                  (case np_random_choice (length images) (min count (int (length images)))
                          probabilities (drawn e) of
                     Inl x \<Rightarrow> Inl x
                   | Inr selected_indices \<Rightarrow>
                       if \<forall>i \<in> set selected_indices. i < length images
                       then Inr (map (\<lambda>i. images ! i) selected_indices)
                       else Inl IndexError))))"


section \<open>Loading, and finding new items\<close>

definition empty_store :: "review_system \<Rightarrow> review_system" where
  "empty_store st =
     st\<lparr>weights := [], last_reviewed := [], review_intervals := [], subject_mapping := PDict []\<rparr>"

text \<open>\<^verbatim>\<open>data.get(name, {}) if data.get(name) is not None else {}\<close>, then
  \<^verbatim>\<open>{}\<close> in place of anything that is not a dictionary.\<close>

definition sub_mapping :: "pydict \<Rightarrow> string \<Rightarrow> pydict" where
  "sub_mapping data name =
     (case (if dict_get data name PNone \<noteq> PNone then dict_get data name (PDict []) else PDict [])
      of PDict d \<Rightarrow> d | _ \<Rightarrow> [])"

definition load_weights :: "env \<Rightarrow> review_system \<Rightarrow> review_system" where
  "load_weights e st =
     (case weights_file st of
        Missing \<Rightarrow> empty_store st
      | Unreadable \<Rightarrow> empty_store st
      | Blank \<Rightarrow> empty_store st
      | Garbage \<Rightarrow> empty_store st
      | Doc data \<Rightarrow>
          (case data of
             PDict d \<Rightarrow>
               st\<lparr>weights := sub_mapping d ''weights'',
                  last_reviewed :=
                    map (\<lambda>(key, value).
                           (key, case value of
                                   PStr s \<Rightarrow>
                                     (case fromisoformat e s of
                                        Some t \<Rightarrow> PTime t
                                      | None \<Rightarrow> value)
                                 | _ \<Rightarrow> value))
                      (sub_mapping d ''last_reviewed''),
                  review_intervals := sub_mapping d ''review_intervals'',
                  subject_mapping := dict_get d ''subject_mapping'' (PDict [])\<rparr>
           | _ \<Rightarrow> empty_store st))"

text \<open>\<open>scan_subjects\<close>: every file of every subject folder gets the default entries it
  does not have yet, then everything is saved.\<close>

definition with_defaults :: "review_system \<Rightarrow> string \<Rightarrow> review_system" where
  "with_defaults s image_key =
     s\<lparr>weights := setdefault (weights s) image_key (PNum 1),
       last_reviewed := setdefault (last_reviewed s) image_key PNone,
       review_intervals := setdefault (review_intervals s) image_key (PNum 1)\<rparr>"

definition scan_subjects :: "env \<Rightarrow> review_system \<Rightarrow> review_system" where
  "scan_subjects e st =
     save_weights e
       (foldl with_defaults st
          (concat (map (\<lambda>(subject, files). map (\<lambda>file. subject @ ''/'' @ file) files)
                     (data_dir st))))"

text \<open>A backing store that is missing, unreadable, empty, not JSON, or JSON other than an
  object.\<close>

fun is_dict :: "pyval \<Rightarrow> bool" where
  "is_dict (PDict kvs) = True"
| "is_dict PNone = False"
| "is_dict (PBool b) = False"
| "is_dict (PNum x) = False"
| "is_dict (PStr s) = False"
| "is_dict (PTime t) = False"
| "is_dict (PList xs) = False"

fun corrupt :: "file_content \<Rightarrow> bool" where
  "corrupt Missing = True"
| "corrupt Unreadable = True"
| "corrupt Blank = True"
| "corrupt Garbage = True"
| "corrupt (Doc v) = (\<not> is_dict v)"

text \<open>Stores as the data model types them, for the round trip: every value of a dictionary
  is a number; every timestamp of a dictionary is read back from its printed form.\<close>

definition numbers :: "pydict \<Rightarrow> bool" where
  "numbers d = list_all (\<lambda>kv. is_number (snd kv)) d"

definition read_back :: "env \<Rightarrow> env \<Rightarrow> pydict \<Rightarrow> bool" where
  "read_back e e' d =
     list_all (\<lambda>kv. case snd kv of
                       PTime t \<Rightarrow> fromisoformat e' (isoformat e t) = Some t
                     | _ \<Rightarrow> True) d"

section \<open>Construction of the object\<close>

text \<open>The subject folders, in the order the model lists them (Python builds the list
  from a set, in no fixed order).\<close>

definition get_subjects :: "review_system \<Rightarrow> string list" where
  "get_subjects st = map fst (data_dir st)"

text \<open>\<^verbatim>\<open>f"S{i:03d}"\<close>, and \<^verbatim>\<open>str.isdigit\<close> on the characters of a code.\<close>

definition digit :: "nat \<Rightarrow> char" where
  "digit n = ''0123456789'' ! (n mod 10)"

fun decimal :: "nat \<Rightarrow> string" where
  "decimal n = (if n < 10 then [digit n] else decimal (n div 10) @ [digit n])"

declare decimal.simps [simp del]

definition subject_code :: "nat \<Rightarrow> string" where
  "subject_code i = CHR ''S'' # replicate (3 - length (decimal i)) CHR ''0'' @ decimal i"

definition isdigit :: "string \<Rightarrow> bool" where
  "isdigit s = (s \<noteq> [] \<and> list_all (\<lambda>c. c \<in> set ''0123456789'') s)"

text \<open>The local function \<open>encode_subject_name\<close>: it reads the name table and, for a
  subject without a code, extends it; so it returns the table with the key.\<close>

definition encode_subject_name :: "pyval \<Rightarrow> string \<Rightarrow> error + (pyval \<times> string)" where
  "encode_subject_name mapping key =
     (if CHR ''/'' \<in> set key then
        (let subject = takeWhile (\<lambda>c. c \<noteq> CHR ''/'') key;
             filename = tl (dropWhile (\<lambda>c. c \<noteq> CHR ''/'') key)
         in if take 1 subject = ''S'' \<and> length subject = 4 \<and> isdigit (drop 1 subject)
            then Inr (mapping, key)
            else
              (case mapping of
                 PDict m \<Rightarrow>
                   (case find (\<lambda>(encoded, original). original = PStr subject) m of
                      Some (encoded, original) \<Rightarrow> Inr (mapping, encoded @ ''/'' @ filename)
                    | None \<Rightarrow>
                        (let encoded_name = subject_code (length m)
                         in Inr (PDict (AList.update encoded_name (PStr subject) m),
                                 encoded_name @ ''/'' @ filename)))
               | _ \<Rightarrow> Inl AttributeError))
      else Inr (mapping, key))"

text \<open>One of the three loops \<^verbatim>\<open>new[encode_subject_name(key)] = value\<close> over a dictionary.\<close>

fun rekey :: "pyval \<Rightarrow> pydict \<Rightarrow> pydict \<Rightarrow> error + (pyval \<times> pydict)" where
  "rekey mapping [] new = Inr (mapping, new)"
| "rekey mapping ((key, value) # items) new =
     (case encode_subject_name mapping key of
        Inl x \<Rightarrow> Inl x
      | Inr (mapping', new_key) \<Rightarrow> rekey mapping' items (AList.update new_key value new))"

definition update_weights_with_encoded_names ::
  "env \<Rightarrow> review_system \<Rightarrow> error + review_system" where
  "update_weights_with_encoded_names e st =
     (case rekey (subject_mapping st) (weights st) [] of
        Inl x \<Rightarrow> Inl x
      | Inr (m1, new_weights) \<Rightarrow>
          (case rekey m1 (last_reviewed st) [] of
             Inl x \<Rightarrow> Inl x
           | Inr (m2, new_last_reviewed) \<Rightarrow>
               (case rekey m2 (review_intervals st) [] of
                  Inl x \<Rightarrow> Inl x
                | Inr (m3, new_review_intervals) \<Rightarrow>
                    Inr (save_weights e
                           (st\<lparr>weights := new_weights,
                               last_reviewed := new_last_reviewed,
                               review_intervals := new_review_intervals,
                               subject_mapping := m3\<rparr>)))))"

text \<open>\<^verbatim>\<open>for i, subject in enumerate(subjects): self.subject_mapping[f"S{i:03d}"] = subject\<close>;
  the assignment raises \<^verbatim>\<open>TypeError\<close> when the loaded table is not a dictionary.\<close>

fun assign_codes :: "nat \<Rightarrow> string list \<Rightarrow> pydict \<Rightarrow> pydict" where
  "assign_codes i [] m = m"
| "assign_codes i (subject # subjects) m =
     assign_codes (Suc i) subjects (AList.update (subject_code i) (PStr subject) m)"

definition create_subject_mapping :: "env \<Rightarrow> review_system \<Rightarrow> error + review_system" where
  "create_subject_mapping e st =
     (if get_subjects st = [] then update_weights_with_encoded_names e st
      else
        (case subject_mapping st of
           PDict m \<Rightarrow>
             update_weights_with_encoded_names e
               (st\<lparr>subject_mapping := PDict (assign_codes 0 (get_subjects st) m)\<rparr>)
         | _ \<Rightarrow> Inl TypeError))"

text \<open>The constructor \<^verbatim>\<open>__init__\<close>: load, scan, build the name table.\<close>

definition init :: "env \<Rightarrow> review_system \<Rightarrow> error + review_system" where
  "init e st = create_subject_mapping e (scan_subjects e (load_weights e st))"

section \<open>Operations that are not feedback\<close>

text \<open>The loop of the route \<^verbatim>\<open>/api/weights/<subject_name>\<close> over the files of a subject.\<close>

definition api_get_weights :: "string \<Rightarrow> string list \<Rightarrow> review_system \<Rightarrow> pydict" where
  "api_get_weights encoded_subject_name files st =
     foldl (\<lambda>ws file.
              AList.update file
                (dict_get (weights st) (encoded_subject_name @ ''/'' @ file) (PNum 1)) ws)
       [] files"

text \<open>The operations on a constructed object other than the feedback route, each with
  what it returns and the object as it leaves it. The selection and the weights route
  only read the dictionaries.\<close>

datatype operation =
    Select "string list" int
  | GetWeights string "string list"
  | ScanSubjects
  | SaveWeights

datatype outcome = Selected "error + string list" | Weights pydict | Done

definition perform :: "operation \<Rightarrow> env \<Rightarrow> review_system \<Rightarrow> outcome \<times> review_system" where
  "perform op e st =
     (case op of
        Select images count \<Rightarrow> (Selected (select_images_for_review images count e st), st)
      | GetWeights encoded_subject_name files \<Rightarrow>
          (Weights (api_get_weights encoded_subject_name files st), st)
      | ScanSubjects \<Rightarrow> (Done, scan_subjects e st)
      | SaveWeights \<Rightarrow> (Done, save_weights e st))"

text \<open>An entry of a dictionary is as it was, or is new with the default value.\<close>

definition kept_or_created :: "pyval \<Rightarrow> pydict \<Rightarrow> pydict \<Rightarrow> string \<Rightarrow> bool" where
  "kept_or_created dflt d d' k =
     (map_of d' k = map_of d k \<or> (map_of d k = None \<and> map_of d' k = Some dflt))"


section \<open>Example states\<close>

text \<open>A clock reading, a disk that accepts the write, and timestamps printed and read
  back for two instants; a store with one item at the top of the interval range.\<close>

definition example_env :: env where
  "example_env =
     \<lparr>now = 172800000000, write_fault = None,
      isoformat = (\<lambda>t. if t = 0 then ''0001-01-01T00:00:00'' else ''0001-01-03T00:00:00''),
      fromisoformat = (\<lambda>s. if s = ''0001-01-01T00:00:00'' then Some 0
                             else if s = ''0001-01-03T00:00:00'' then Some 172800000000
                             else None),
      drawn = [0]\<rparr>"

definition example_store :: review_system where
  "example_store =
     \<lparr>weights = [(''S000/a.png'', PNum 1)],
      last_reviewed = [(''S000/a.png'', PTime 0)],
      review_intervals = [(''S000/a.png'', PNum 30)],
      subject_mapping = PDict [(''S000'', PStr ''maths'')],
      weights_file = Missing,
      data_dir = [(''maths'', [''a.png''])]\<rparr>"

definition blurred_store :: review_system where
  "blurred_store =
     \<lparr>weights = [(''S000/a.png'', PNum 0.95)],
      last_reviewed = [(''S000/a.png'', PTime 172800000000)],
      review_intervals = [(''S000/a.png'', PNum 36)],
      subject_mapping = PDict [(''S000'', PStr ''maths'')],
      weights_file =
        Doc (PDict [(''subject_mapping'', PDict [(''S000'', PStr ''maths'')]),
                    (''weights'', PDict [(''S000/a.png'', PNum 0.95)]),
                    (''last_reviewed'', PDict [(''S000/a.png'', PStr ''0001-01-03T00:00:00'')]),
                    (''review_intervals'', PDict [(''S000/a.png'', PNum 36)])]),
      data_dir = [(''maths'', [''a.png''])]\<rparr>"

definition overweight_store :: review_system where
  "overweight_store =
     \<lparr>weights = [(''S000/a.png'', PNum 100)],
      last_reviewed = [(''S000/a.png'', PTime 0)],
      review_intervals = [(''S000/a.png'', PNum 30)],
      subject_mapping = PDict [(''S000'', PStr ''maths'')],
      weights_file =
        Doc (PDict [(''subject_mapping'', PDict [(''S000'', PStr ''maths'')]),
                    (''weights'', PDict [(''S000/a.png'', PNum 100)]),
                    (''last_reviewed'', PDict [(''S000/a.png'', PStr ''0001-01-01T00:00:00'')]),
                    (''review_intervals'', PDict [(''S000/a.png'', PNum 30)])]),
      data_dir = [(''maths'', [''a.png''])]\<rparr>"

text \<open>A store whose only weight is zero, and a generator that hands out two indices.\<close>

definition zero_weight_store :: review_system where
  "zero_weight_store =
     \<lparr>weights = [(''S000/a.png'', PNum 0)],
      last_reviewed = [(''S000/a.png'', PTime 0)],
      review_intervals = [(''S000/a.png'', PNum 30)],
      subject_mapping = PDict [(''S000'', PStr ''maths'')],
      weights_file = Missing,
      data_dir = [(''maths'', [''a.png'', ''b.png''])]\<rparr>"


text \<open>A disk that refuses the write and leaves no file; the store after the feedback
  "strange" on the example item, as that disk leaves it and as a working disk leaves it;
  a store at the bounds of the ranges.\<close>

definition failing_disk_env :: env where
  "failing_disk_env = example_env\<lparr>write_fault := Some Missing\<rparr>"

definition unsaved_store :: review_system where
  "unsaved_store =
     \<lparr>weights = [(''S000/a.png'', PNum 1.5)],
      last_reviewed = [(''S000/a.png'', PTime 172800000000)],
      review_intervals = [(''S000/a.png'', PNum 15)],
      subject_mapping = PDict [(''S000'', PStr ''maths'')],
      weights_file = Missing,
      data_dir = [(''maths'', [''a.png''])]\<rparr>"

definition strange_store :: review_system where
  "strange_store =
     \<lparr>weights = [(''S000/a.png'', PNum 1.5)],
      last_reviewed = [(''S000/a.png'', PTime 172800000000)],
      review_intervals = [(''S000/a.png'', PNum 15)],
      subject_mapping = PDict [(''S000'', PStr ''maths'')],
      weights_file =
        Doc (PDict [(''subject_mapping'', PDict [(''S000'', PStr ''maths'')]),
                    (''weights'', PDict [(''S000/a.png'', PNum 1.5)]),
                    (''last_reviewed'', PDict [(''S000/a.png'', PStr ''0001-01-03T00:00:00'')]),
                    (''review_intervals'', PDict [(''S000/a.png'', PNum 15)])]),
      data_dir = [(''maths'', [''a.png''])]\<rparr>"

definition boundary_store :: review_system where
  "boundary_store =
     \<lparr>weights = [(''S000/a.png'', PNum 0.1), (''S000/b.png'', PNum 10)],
      last_reviewed = [(''S000/a.png'', PTime 0), (''S000/b.png'', PNone)],
      review_intervals = [(''S000/a.png'', PNum 30), (''S000/b.png'', PNum 0.1)],
      subject_mapping = PDict [(''S000'', PStr ''maths'')],
      weights_file = Missing,
      data_dir = [(''maths'', [''a.png'', ''b.png''])]\<rparr>"

text \<open>The object constructed again from what \<open>strange_store\<close> holds on disk, and the
  example store after a weight of 7 is assigned directly.\<close>

definition restarted_store :: review_system where
  "restarted_store =
     \<lparr>weights = [(''S000/a.png'', PNum 1)],
      last_reviewed = [(''S000/a.png'', PNone)],
      review_intervals = [(''S000/a.png'', PNum 1)],
      subject_mapping = PDict [(''S000'', PStr ''maths'')],
      weights_file =
        Doc (PDict [(''subject_mapping'', PDict [(''S000'', PStr ''maths'')]),
                    (''weights'', PDict [(''S000/a.png'', PNum 1)]),
                    (''last_reviewed'', PDict [(''S000/a.png'', PNone)]),
                    (''review_intervals'', PDict [(''S000/a.png'', PNum 1)])]),
      data_dir = [(''maths'', [''a.png''])]\<rparr>"

definition reweighted_store :: review_system where
  "reweighted_store =
     \<lparr>weights = [(''S000/a.png'', PNum 7)],
      last_reviewed = [(''S000/a.png'', PTime 0)],
      review_intervals = [(''S000/a.png'', PNum 30)],
      subject_mapping = PDict [(''S000'', PStr ''maths'')],
      weights_file =
        Doc (PDict [(''subject_mapping'', PDict [(''S000'', PStr ''maths'')]),
                    (''weights'', PDict [(''S000/a.png'', PNum 7)]),
                    (''last_reviewed'', PDict [(''S000/a.png'', PStr ''0001-01-01T00:00:00'')]),
                    (''review_intervals'', PDict [(''S000/a.png'', PNum 30)])]),
      data_dir = [(''maths'', [''a.png''])]\<rparr>"



section \<open>Dictionary lemmas\<close>

lemma map_of_setdefault:
  "map_of (setdefault d k v) k' =
     (if k' = k then (case map_of d k of None \<Rightarrow> Some v | Some x \<Rightarrow> Some x) else map_of d k')"
  by (auto simp: setdefault_def dict_has_def update_conv' split: option.splits)

lemma dict_get_update:
  "dict_get (AList.update k v d) k' dflt = (if k' = k then v else dict_get d k' dflt)"
  by (simp add: dict_get_def update_conv')

lemma dict_get_setdefault:
  "dict_get (setdefault d k v) k' dflt = (if k' = k then dict_get d k v else dict_get d k' dflt)"
  by (simp add: dict_get_def map_of_setdefault split: option.splits)

lemma num_item_setdefault:
  "num_of (dict_get d k v) = Some x \<Longrightarrow> num_item (setdefault d k v) k = Inr x"
  by (auto simp: num_item_def dict_get_def map_of_setdefault split: option.splits)

lemma save_weights_memory [simp]:
  "weights (save_weights e st) = weights st"
  "last_reviewed (save_weights e st) = last_reviewed st"
  "review_intervals (save_weights e st) = review_intervals st"
  "subject_mapping (save_weights e st) = subject_mapping st"
  "data_dir (save_weights e st) = data_dir st"
  by (simp_all add: save_weights_def Let_def split: option.splits)

lemma list_all_update:
  "list_all (\<lambda>kv. P (snd kv)) d \<Longrightarrow> P v \<Longrightarrow> list_all (\<lambda>kv. P (snd kv)) (AList.update k v d)"
  by (induction d) auto

lemma list_all_setdefault:
  "list_all (\<lambda>kv. P (snd kv)) d \<Longrightarrow> P v \<Longrightarrow> list_all (\<lambda>kv. P (snd kv)) (setdefault d k v)"
  by (simp add: setdefault_def list_all_update)

lemma list_all_dict_get:
  "list_all (\<lambda>kv. P (snd kv)) d \<Longrightarrow> P dflt \<Longrightarrow> P (dict_get d k dflt)"
  by (fastforce simp: dict_get_def list_all_iff split: option.splits dest: map_of_SomeD)

lemma list_all_update_iff:
  "list_all (\<lambda>kv. P (snd kv)) d \<Longrightarrow> list_all (\<lambda>kv. P (snd kv)) (AList.update k v d) \<longleftrightarrow> P v"
proof
  assume "list_all (\<lambda>kv. P (snd kv)) (AList.update k v d)"
  moreover have "(k, v) \<in> set (AList.update k v d)"
    by (induction d) auto
  ultimately show "P v"
    by (auto simp: list_all_iff)
qed (simp add: list_all_update)

section \<open>The update table\<close>

text \<open>What \<open>update_weight\<close> returns for an item whose weight and interval are numbers.\<close>

lemma update_weight_eq:
  assumes "weight_of st k = Some w" and "interval_of st k = Some i"
  shows "update_weight k label e st =
           Inr (save_weights e
                  (st\<lparr>weights := AList.update k (PNum (clamp_weight (fst (feedback_table label (w, i)))))
                                   (setdefault (weights st) k (PNum 1)),
                      last_reviewed := AList.update k (PTime (now e))
                                         (setdefault (last_reviewed st) k PNone),
                      review_intervals :=
                        (if known_label label
                         then AList.update k (PNum (snd (feedback_table label (w, i))))
                                (setdefault (review_intervals st) k (PNum 1))
                         else setdefault (review_intervals st) k (PNum 1))\<rparr>))"
proof -
  have w: "num_item (setdefault (weights st) k (PNum 1)) k = Inr w"
    using assms(1) by (simp add: weight_of_def num_item_setdefault)
  have i: "num_item (setdefault (review_intervals st) k (PNum 1)) k = Inr i"
    using assms(2) by (simp add: interval_of_def num_item_setdefault)
  show ?thesis
    by (simp add: update_weight_def Let_def w i feedback_table_def clamp_weight_def known_label_def)
qed

text \<open>
  C1. For every item whose stored weight and interval are numbers (1.0 each when the key
  is new) and every label, present or not, \<open>update_weight\<close> returns, and the item then
  has the interval of the table, the weight of the table clamped to [0.1, 10], and the
  current time as its last review.
\<close>

theorem update_weight_table:
  assumes "weight_of st k = Some w" and "interval_of st k = Some i"
  shows "\<exists>st'. update_weight k label e st = Inr st'
           \<and> weight_of st' k = Some (clamp_weight (fst (feedback_table label (w, i))))
           \<and> interval_of st' k = Some (snd (feedback_table label (w, i)))
           \<and> reviewed_at st' k = PTime (now e)"
proof -
  have "num_of (dict_get (setdefault (review_intervals st) k (PNum 1)) k (PNum 1)) = Some i"
    using assms(2) by (simp add: interval_of_def dict_get_setdefault)
  moreover have "\<not> known_label label \<Longrightarrow> snd (feedback_table label (w, i)) = i"
    by (simp add: feedback_table_def known_label_def)
  ultimately show ?thesis
    by (simp add: update_weight_eq [OF assms] weight_of_def interval_of_def reviewed_at_def
        dict_get_update)
qed

theorem update_weight_table_witness:
  "\<exists>st'. update_weight ''S000/a.png'' (Some ''strange'') example_env example_store = Inr st'
         \<and> weight_of st' ''S000/a.png'' = Some 1.5
         \<and> interval_of st' ''S000/a.png'' = Some 15
         \<and> reviewed_at st' ''S000/a.png'' = PTime 172800000000"
  using update_weight_table [of example_store "''S000/a.png''" 1 30 "Some ''strange''" example_env]
  by (simp add: weight_of_def interval_of_def dict_get_def feedback_table_def clamp_weight_def
      example_store_def example_env_def)

section \<open>Ranges\<close>

lemma weight_of_in_range:
  assumes "weights_in_range st"
  obtains w where "weight_of st k = Some w" "0.1 \<le> w" "w \<le> 10"
proof -
  have "num_within 0.1 10 (dict_get (weights st) k (PNum 1))"
    using assms unfolding weights_in_range_def
    by (rule list_all_dict_get) (simp add: num_within_def)
  then show ?thesis
    using that by (auto simp: num_within_def weight_of_def split: option.splits)
qed

lemma interval_of_at_least:
  assumes "intervals_at_least st"
  obtains i where "interval_of st k = Some i" "0.1 \<le> i"
proof -
  have "num_at_least 0.1 (dict_get (review_intervals st) k (PNum 1))"
    using assms unfolding intervals_at_least_def
    by (rule list_all_dict_get) (simp add: num_at_least_def)
  then show ?thesis
    using that by (auto simp: num_at_least_def interval_of_def split: option.splits)
qed

lemma interval_of_in_range:
  assumes "intervals_in_range st"
  obtains i where "interval_of st k = Some i" "0.1 \<le> i" "i \<le> 30"
proof -
  have "num_within 0.1 30 (dict_get (review_intervals st) k (PNum 1))"
    using assms unfolding intervals_in_range_def
    by (rule list_all_dict_get) (simp add: num_within_def)
  then show ?thesis
    using that by (auto simp: num_within_def interval_of_def split: option.splits)
qed

lemma in_range_at_least: "intervals_in_range st \<Longrightarrow> intervals_at_least st"
  unfolding intervals_in_range_def intervals_at_least_def
  by (auto simp: list_all_iff num_within_def num_at_least_def split: option.splits)

lemma table_interval_at_least: "0.1 \<le> i \<Longrightarrow> 0.1 \<le> snd (feedback_table label (w, i))"
  by (auto simp: feedback_table_def Let_def max_def min_def)

lemma table_interval_at_most:
  "label \<noteq> Some ''blur'' \<Longrightarrow> i \<le> 30 \<Longrightarrow> snd (feedback_table label (w, i)) \<le> 30"
  by (simp add: feedback_table_def Let_def)

lemma update_weight_weights_in_range:
  assumes "weights_in_range st" and "intervals_at_least st"
  shows "\<exists>st'. update_weight k label e st = Inr st' \<and> weights_in_range st' \<and> intervals_at_least st'"
proof -
  obtain w where w: "weight_of st k = Some w"
    using assms(1) by (rule weight_of_in_range)
  obtain i where i: "interval_of st k = Some i" "0.1 \<le> i"
    using assms(2) by (rule interval_of_at_least)
  let ?st' = "save_weights e
                  (st\<lparr>weights := AList.update k (PNum (clamp_weight (fst (feedback_table label (w, i)))))
                                   (setdefault (weights st) k (PNum 1)),
                      last_reviewed := AList.update k (PTime (now e))
                                         (setdefault (last_reviewed st) k PNone),
                      review_intervals :=
                        (if known_label label
                         then AList.update k (PNum (snd (feedback_table label (w, i))))
                                (setdefault (review_intervals st) k (PNum 1))
                         else setdefault (review_intervals st) k (PNum 1))\<rparr>)"
  have eq: "update_weight k label e st = Inr ?st'"
    using w i(1) by (rule update_weight_eq)
  have one: "num_within 0.1 10 (PNum 1)" "num_at_least 0.1 (PNum 1)"
    by (simp_all add: num_within_def num_at_least_def)
  have new_w: "num_within 0.1 10 (PNum (clamp_weight (fst (feedback_table label (w, i)))))"
    by (simp add: num_within_def clamp_weight_def)
  have new_i: "num_at_least 0.1 (PNum (snd (feedback_table label (w, i))))"
    using table_interval_at_least [OF i(2), of label w] by (simp add: num_at_least_def)
  have "list_all (\<lambda>kv. num_within 0.1 10 (snd kv))
          (AList.update k (PNum (clamp_weight (fst (feedback_table label (w, i)))))
             (setdefault (weights st) k (PNum 1)))"
    using assms(1) one(1) new_w unfolding weights_in_range_def
    by (intro list_all_update list_all_setdefault)
  then have "weights_in_range ?st'"
    by (simp add: weights_in_range_def)
  moreover have "list_all (\<lambda>kv. num_at_least 0.1 (snd kv))
          (AList.update k (PNum (snd (feedback_table label (w, i))))
             (setdefault (review_intervals st) k (PNum 1)))"
       "list_all (\<lambda>kv. num_at_least 0.1 (snd kv)) (setdefault (review_intervals st) k (PNum 1))"
    using assms(2) one(2) new_i unfolding intervals_at_least_def
    by (auto intro!: list_all_update list_all_setdefault)
  then have "intervals_at_least ?st'"
    by (simp add: intervals_at_least_def)
  ultimately show ?thesis using eq by simp
qed

lemma update_weight_intervals_in_range:
  assumes "weights_in_range st" and "intervals_in_range st" and "label \<noteq> Some ''blur''"
    and "update_weight k label e st = Inr st'"
  shows "intervals_in_range st'"
proof -
  obtain w where w: "weight_of st k = Some w"
    using assms(1) by (rule weight_of_in_range)
  obtain i where i: "interval_of st k = Some i" "0.1 \<le> i" "i \<le> 30"
    using assms(2) by (rule interval_of_in_range)
  have "review_intervals st' = (if known_label label
                         then AList.update k (PNum (snd (feedback_table label (w, i))))
                                (setdefault (review_intervals st) k (PNum 1))
                         else setdefault (review_intervals st) k (PNum 1))"
    using assms(4) update_weight_eq [OF w i(1), of label e] by auto
  moreover have "num_within 0.1 30 (PNum 1)"
    by (simp add: num_within_def)
  moreover have "num_within 0.1 30 (PNum (snd (feedback_table label (w, i))))"
    using table_interval_at_least [OF i(2), of label w]
      table_interval_at_most [OF assms(3) i(3), of w]
    by (simp add: num_within_def)
  ultimately show ?thesis
    using assms(2) unfolding intervals_in_range_def
    by (auto intro!: list_all_update list_all_setdefault)
qed

lemma record_all_ranges:
  assumes "weights_in_range st" and "intervals_in_range st"
  shows "\<exists>st'. record_all calls st = Inr st' \<and> weights_in_range st' \<and> intervals_at_least st'
           \<and> (Some ''blur'' \<notin> set (map (fst \<circ> snd) calls) \<longrightarrow> intervals_in_range st')"
proof -
  have lo: "\<exists>st'. record_all calls st = Inr st' \<and> weights_in_range st' \<and> intervals_at_least st'"
    if "weights_in_range st" "intervals_at_least st" for st
    using that
  proof (induction calls arbitrary: st)
    case Nil
    then show ?case by simp
  next
    case (Cons c calls)
    obtain k label e where c: "c = (k, label, e)" by (cases c)
    obtain st1 where st1: "update_weight k label e st = Inr st1" "weights_in_range st1"
        "intervals_at_least st1"
      using update_weight_weights_in_range [OF Cons.prems] by blast
    show ?case
      using Cons.IH [OF st1(2,3)] st1(1) by (simp add: c)
  qed
  have hi: "intervals_in_range st'"
    if "weights_in_range st" "intervals_in_range st" "record_all calls st = Inr st'"
       "Some ''blur'' \<notin> set (map (fst \<circ> snd) calls)" for st st'
    using that
  proof (induction calls arbitrary: st)
    case Nil
    then show ?case by simp
  next
    case (Cons c calls)
    obtain k label e where c: "c = (k, label, e)" by (cases c)
    obtain st1 where st1: "update_weight k label e st = Inr st1" "weights_in_range st1"
      using update_weight_weights_in_range [OF Cons.prems(1) in_range_at_least [OF Cons.prems(2)]]
      by blast
    have blur: "label \<noteq> Some ''blur''"
      using Cons.prems(4) by (auto simp: c)
    have "intervals_in_range st1"
      using Cons.prems(1,2) blur st1(1) by (rule update_weight_intervals_in_range)
    moreover have "record_all calls st1 = Inr st'"
      using Cons.prems(3) st1(1) by (simp add: c)
    moreover have "Some ''blur'' \<notin> set (map (fst \<circ> snd) calls)"
      using Cons.prems(4) by simp
    ultimately show ?case
      using Cons.IH st1(2) by blast
  qed
  obtain st' where st': "record_all calls st = Inr st'" "weights_in_range st'" "intervals_at_least st'"
    using lo [OF assms(1) in_range_at_least [OF assms(2)]] by blast
  show ?thesis
    using st' hi [OF assms st'(1)] by blast
qed

lemma raw_weight_ranges:
  assumes "weights_in_range st" and "intervals_in_range st"
    and "req_image_key r = Some key" and "key \<noteq> []" and "\<not> truthy (req_familiarity r)"
    and "req_weight r = Some x" and "api_update_weight r e st = Inr (resp, st')"
  shows "(weights_in_range st' \<longleftrightarrow> 0.1 \<le> x \<and> x \<le> 10) \<and> intervals_in_range st'"
proof -
  obtain k' where k': "encoded_key (subject_mapping st) key = Inr k'"
    using assms(3-7) by (auto simp: api_update_weight_def split: sum.splits)
  have st': "st' = save_weights e (st\<lparr>weights := AList.update k' (PNum x) (weights st)\<rparr>)"
    using assms(3-7) k' by (simp add: api_update_weight_def)
  have "list_all (\<lambda>kv. num_within 0.1 10 (snd kv)) (AList.update k' (PNum x) (weights st))
          \<longleftrightarrow> num_within 0.1 10 (PNum x)"
    using assms(1) unfolding weights_in_range_def by (rule list_all_update_iff)
  then have "weights_in_range st' \<longleftrightarrow> 0.1 \<le> x \<and> x \<le> 10"
    by (simp add: st' weights_in_range_def num_within_def)
  moreover have "intervals_in_range st'"
    using assms(2) by (simp add: st' intervals_in_range_def)
  ultimately show ?thesis by blast
qed

text \<open>
  C2, as stated, fails twice from a store within the ranges: the label "blur" takes an
  interval of 30 days to 36, and the route's direct assignment stores a weight of 100
  as it is.
\<close>

theorem clamping_counterexample:
  "weights_in_range example_store \<and> intervals_in_range example_store
   \<and> update_weight ''S000/a.png'' (Some ''blur'') example_env example_store = Inr blurred_store
   \<and> \<not> intervals_in_range blurred_store
   \<and> api_update_weight
         \<lparr>req_image_key = Some ''S000/a.png'', req_familiarity = None, req_weight = Some 100\<rparr>
         example_env example_store = Inr (Success, overweight_store)
   \<and> \<not> weights_in_range overweight_store"
  by (simp add: weights_in_range_def intervals_in_range_def num_within_def example_store_def
      example_env_def blurred_store_def overweight_store_def update_weight_def
      api_update_weight_def encoded_key_def truthy_def save_weights_def setdefault_def
      dict_has_def num_item_def Let_def)

text \<open>
  C2, amended. From a store within the ranges, every sequence of feedback calls returns
  and leaves every weight in [0.1, 10] and every interval at 0.1 or more; when no call of
  the sequence carries the label "blur", every interval is also at most 30. The direct
  assignment of a weight leaves the intervals as they are and keeps the weights in range
  exactly when the given weight is in [0.1, 10].
\<close>

theorem feedback_keeps_ranges:
  assumes "weights_in_range st" and "intervals_in_range st"
  shows "(\<exists>st'. record_all calls st = Inr st' \<and> weights_in_range st' \<and> intervals_at_least st'
            \<and> (Some ''blur'' \<notin> set (map (fst \<circ> snd) calls) \<longrightarrow> intervals_in_range st'))
         \<and> (\<forall>r key x e resp st'.
               req_image_key r = Some key \<and> key \<noteq> [] \<and> \<not> truthy (req_familiarity r)
               \<and> req_weight r = Some x \<and> api_update_weight r e st = Inr (resp, st')
               \<longrightarrow> (weights_in_range st' \<longleftrightarrow> 0.1 \<le> x \<and> x \<le> 10) \<and> intervals_in_range st')"
  using record_all_ranges [OF assms] raw_weight_ranges [OF assms] by blast

theorem feedback_keeps_ranges_witness:
  "weights_in_range example_store \<and> intervals_in_range example_store
   \<and> (\<exists>st'. record_all [(''S000/a.png'', Some ''familiar'', example_env),
                          (''S000/b.png'', None, example_env)] example_store = Inr st'
          \<and> weights_in_range st' \<and> intervals_at_least st' \<and> intervals_in_range st')
   \<and> \<not> weights_in_range overweight_store \<and> intervals_in_range overweight_store"
proof -
  have h: "weights_in_range example_store" "intervals_in_range example_store"
    by (simp_all add: weights_in_range_def intervals_in_range_def num_within_def example_store_def)
  have raw: "api_update_weight
         \<lparr>req_image_key = Some ''S000/a.png'', req_familiarity = None, req_weight = Some 100\<rparr>
         example_env example_store = Inr (Success, overweight_store)"
    by (simp add: example_store_def example_env_def overweight_store_def api_update_weight_def
        encoded_key_def truthy_def save_weights_def Let_def)
  note both = feedback_keeps_ranges [OF h, of "[(''S000/a.png'', Some ''familiar'', example_env),
                          (''S000/b.png'', None, example_env)]"]
  have calls: "\<exists>st'. record_all [(''S000/a.png'', Some ''familiar'', example_env),
                          (''S000/b.png'', None, example_env)] example_store = Inr st'
          \<and> weights_in_range st' \<and> intervals_at_least st' \<and> intervals_in_range st'"
    using both by auto
  have "\<forall>r key x e resp st'.
               req_image_key r = Some key \<and> key \<noteq> [] \<and> \<not> truthy (req_familiarity r)
               \<and> req_weight r = Some x \<and> api_update_weight r e example_store = Inr (resp, st')
               \<longrightarrow> (weights_in_range st' \<longleftrightarrow> 0.1 \<le> x \<and> x \<le> 10) \<and> intervals_in_range st'"
    using both by blast
  from this [rule_format, of
      "\<lparr>req_image_key = Some ''S000/a.png'', req_familiarity = None, req_weight = Some 100\<rparr>"
      "''S000/a.png''" 100 example_env Success overweight_store] raw
  have "\<not> weights_in_range overweight_store \<and> intervals_in_range overweight_store"
    by (simp add: truthy_def)
  then show ?thesis
    using h calls by blast
qed

section \<open>Monotonicity of the weight\<close>

lemma exp_decay: "0 < exp (- 0.1 :: real)" "exp (- 0.1 :: real) \<le> 1"
  by simp_all

lemma clamp_weight_le: "0.1 \<le> w \<Longrightarrow> x \<le> w \<Longrightarrow> clamp_weight x \<le> w"
  by (auto simp: clamp_weight_def min_def max_def)

text \<open>
  C8. For every item whose weight is in [0.1, 10] (and whose interval is a number),
  \<open>update_weight\<close> returns, and the stored weight is: not above the prior weight for
  "familiar"; not below it for "strange"; between 0.95 times the prior weight and the
  prior weight for "blur"; the clamp of exactly 0.9 times the prior weight for any other
  label and for no label.
\<close>

theorem feedback_monotone:
  assumes "weight_of st k = Some w" and "interval_of st k = Some i" and "0.1 \<le> w" and "w \<le> 10"
  shows "\<exists>st' w'. update_weight k label e st = Inr st' \<and> weight_of st' k = Some w'
           \<and> (label = Some ''familiar'' \<longrightarrow> w' \<le> w)
           \<and> (label = Some ''strange'' \<longrightarrow> w \<le> w')
           \<and> (label = Some ''blur'' \<longrightarrow> 0.95 * w \<le> w' \<and> w' \<le> w)
           \<and> (\<not> known_label label \<longrightarrow> w' = max 0.1 (min 10 (w * 0.9)))"
proof -
  let ?w' = "clamp_weight (fst (feedback_table label (w, i)))"
  have "w * exp (- 0.1) \<le> w * 1"
    using assms(3) exp_decay(2) by (intro mult_left_mono) auto
  then have "clamp_weight (w * exp (- 0.1)) \<le> w"
    using assms(3) by (intro clamp_weight_le) auto
  moreover have "label = Some ''familiar'' \<Longrightarrow> fst (feedback_table label (w, i)) = w * exp (- 0.1)"
    by (simp add: feedback_table_def)
  ultimately have fam: "label = Some ''familiar'' \<Longrightarrow> ?w' \<le> w"
    by (simp only:)
  have str: "label = Some ''strange'' \<Longrightarrow> w \<le> ?w'"
    using assms(3,4) by (simp add: feedback_table_def clamp_weight_def)
  have blur: "label = Some ''blur'' \<Longrightarrow> 0.95 * w \<le> ?w' \<and> ?w' \<le> w"
    using assms(3,4) by (simp add: feedback_table_def clamp_weight_def)
  have other: "\<not> known_label label \<Longrightarrow> ?w' = max 0.1 (min 10 (w * 0.9))"
    by (simp add: feedback_table_def clamp_weight_def known_label_def)
  obtain st' where st': "update_weight k label e st = Inr st'"
      and "weights st' = AList.update k (PNum ?w') (setdefault (weights st) k (PNum 1))"
    using update_weight_eq [OF assms(1,2), of label e] by simp
  then have "weight_of st' k = Some ?w'"
    by (simp add: weight_of_def dict_get_update)
  then show ?thesis
    using st' fam str blur other by blast
qed

theorem feedback_monotone_witness:
  "\<exists>st' w'. update_weight ''S000/a.png'' (Some ''blur'') example_env example_store = Inr st'
       \<and> weight_of st' ''S000/a.png'' = Some w' \<and> 0.95 * 1 \<le> w' \<and> w' \<le> 1"
proof -
  have h: "weight_of example_store ''S000/a.png'' = Some 1"
      "interval_of example_store ''S000/a.png'' = Some 30"
    by (simp_all add: weight_of_def interval_of_def dict_get_def example_store_def)
  have r: "(0.1::real) \<le> 1" "(1::real) \<le> 10"
    by simp_all
  show ?thesis
    using feedback_monotone [OF h r, of "Some ''blur''" example_env] by auto
qed

section \<open>Priorities\<close>










section \<open>Floats\<close>





lemma uniform_vector_eq: "0 < n \<Longrightarrow> uniform_vector n = Inr (replicate n (Fin (1 / real n)))"
  by (simp add: uniform_vector_def)







section \<open>Selection\<close>





lemma valid_draw_exists:
  assumes "0 \<le> sz" and "sz \<le> int n"
  shows "valid_draw n sz (take (nat sz) [0..<n])"
  using assms by (auto simp: valid_draw_def dest: in_set_takeD)






section \<open>Values that are not finite\<close>






lemma normalized_fallback:
  assumes "ps \<noteq> []" and "\<not> (above_zero (fsum ps) \<and> np_isfinite (fsum ps))"
  shows "normalized ps = Inr (replicate (length ps) (Fin (1 / real (length ps))))"
  using assms by (auto simp: normalized_def Let_def uniform_vector_eq)










lemma zero_total_uniform:
  "normalized [Fin 0, Fin 0] = Inr [Fin (1 / 2), Fin (1 / 2)]"
  using normalized_fallback [of "[Fin 0, Fin 0]"] by (simp add: fsum_def numeral_2_eq_2)

section \<open>A write that fails\<close>

lemma save_weights_fault:
  "write_fault e = Some left \<Longrightarrow>
     save_weights e st = (save_weights (e\<lparr>write_fault := None\<rparr>) st)\<lparr>weights_file := left\<rparr>"
  by (simp add: save_weights_def Let_def)

lemma update_weight_fault:
  assumes "write_fault e = Some left"
  shows "update_weight k label e st =
           map_sum id (\<lambda>s. s\<lparr>weights_file := left\<rparr>) (update_weight k label (e\<lparr>write_fault := None\<rparr>) st)"
  by (simp add: update_weight_def Let_def save_weights_fault [OF assms] split: sum.splits)

text \<open>
  C9, as stated, fails: with a disk that refuses the write, the route still answers
  success, and nothing in its answer tells the write failed.
\<close>

theorem write_failure_counterexample:
  "api_update_weight
     \<lparr>req_image_key = Some ''S000/a.png'', req_familiarity = Some ''strange'', req_weight = None\<rparr>
     failing_disk_env example_store = Inr (Success, unsaved_store)"
  by (simp add: api_update_weight_def encoded_key_def truthy_def update_weight_def
      save_weights_def setdefault_def dict_has_def num_item_def Let_def failing_disk_env_def
      example_env_def example_store_def unsaved_store_def)

text \<open>
  C9, amended. When the write fails, the route answers what it answers when the write
  goes through: success, with the same dictionaries in memory; only the file differs, left
  as the failed write left it.
\<close>

theorem write_failure_silent:
  assumes "write_fault e = Some left"
    and "api_update_weight r (e\<lparr>write_fault := None\<rparr>) st = Inr (Success, saved)"
  shows "api_update_weight r e st = Inr (Success, saved\<lparr>weights_file := left\<rparr>)"
  using assms(2)
  by (auto simp: api_update_weight_def update_weight_fault [OF assms(1)]
      save_weights_fault [OF assms(1)] split: option.splits sum.splits if_splits)

theorem write_failure_silent_witness:
  "api_update_weight
     \<lparr>req_image_key = Some ''S000/a.png'', req_familiarity = Some ''strange'', req_weight = None\<rparr>
     failing_disk_env example_store = Inr (Success, strange_store\<lparr>weights_file := Missing\<rparr>)"
proof -
  have f: "write_fault failing_disk_env = Some Missing"
    by (simp add: failing_disk_env_def)
  have ok: "api_update_weight
      \<lparr>req_image_key = Some ''S000/a.png'', req_familiarity = Some ''strange'', req_weight = None\<rparr>
      (failing_disk_env\<lparr>write_fault := None\<rparr>) example_store = Inr (Success, strange_store)"
    by (simp add: api_update_weight_def encoded_key_def truthy_def update_weight_def
        save_weights_def setdefault_def dict_has_def num_item_def Let_def failing_disk_env_def
        example_env_def example_store_def strange_store_def)
  show ?thesis
    using write_failure_silent [OF f ok] .
qed

section \<open>Loading\<close>

text \<open>
  C7. Loading from a backing store that is missing, unreadable, empty, not JSON or not a
  JSON object leaves the three dictionaries and the name table empty; \<open>load_weights\<close>
  catches every exception, so it always returns.
\<close>

theorem load_corrupt_store:
  assumes "corrupt (weights_file st)"
  shows "weights (load_weights e st) = [] \<and> last_reviewed (load_weights e st) = []
           \<and> review_intervals (load_weights e st) = []
           \<and> subject_mapping (load_weights e st) = PDict []"
proof (cases "weights_file st")
  case (Doc v)
  then show ?thesis
    using assms by (cases v) (simp_all add: load_weights_def empty_store_def)
qed (simp_all add: load_weights_def empty_store_def)

theorem load_corrupt_store_witness:
  "corrupt (weights_file example_store) \<and> weights (load_weights example_env example_store) = []
   \<and> last_reviewed (load_weights example_env example_store) = []
   \<and> review_intervals (load_weights example_env example_store) = []
   \<and> weights (load_weights example_env (example_store\<lparr>weights_file := Doc (PList [])\<rparr>)) = []"
proof -
  have a: "corrupt (weights_file example_store)"
    by (simp add: example_store_def)
  have b: "corrupt (weights_file (example_store\<lparr>weights_file := Doc (PList [])\<rparr>))"
    by simp
  show ?thesis
    using a load_corrupt_store [OF a, of example_env] load_corrupt_store [OF b, of example_env]
    by simp
qed

section \<open>Saving and loading again\<close>

lemma is_number_serializable: "is_number v \<Longrightarrow> serializable v"
  by (cases v) simp_all

lemma filter_numbers: "numbers d \<Longrightarrow> filter (\<lambda>(key, value). is_number value) d = d"
  by (auto simp: numbers_def list_all_iff filter_id_conv)

lemma round_trip_last_reviewed:
  assumes "list_all (\<lambda>kv. never_or_time (snd kv)) d" and "read_back e e' d"
  shows "map (\<lambda>(key, value).
                (key, case value of
                        PStr s \<Rightarrow> (case fromisoformat e' s of Some t \<Rightarrow> PTime t | None \<Rightarrow> value)
                      | _ \<Rightarrow> value))
           (map (\<lambda>(key, value). (key, case value of PTime t \<Rightarrow> PStr (isoformat e t) | _ \<Rightarrow> value)) d)
         = d"
  using assms
proof (induction d)
  case Nil
  then show ?case by simp
next
  case (Cons kv d)
  obtain k v where kv: "kv = (k, v)" by (cases kv)
  show ?case
    using Cons by (cases v) (simp_all add: kv read_back_def)
qed

text \<open>
  C6. For a store typed as the data model has it (weights and intervals are numbers, a
  last review is a timestamp or \<^verbatim>\<open>None\<close>, the name table holds no timestamp), a write that
  goes through, and timestamps that \<^verbatim>\<open>fromisoformat\<close> reads back from what \<^verbatim>\<open>isoformat\<close>
  printed: any object that loads from the file the save wrote, whatever its own
  dictionaries hold, ends with the three dictionaries of the saved store.
\<close>

theorem save_load_round_trip:
  assumes "write_fault e = None" and "serializable (subject_mapping st)"
    and "numbers (weights st)" and "numbers (review_intervals st)"
    and "timestamps st" and "read_back e e' (last_reviewed st)"
    and "weights_file st2 = weights_file (save_weights e st)"
  shows "weights (load_weights e' st2) = weights st
         \<and> last_reviewed (load_weights e' st2) = last_reviewed st
         \<and> review_intervals (load_weights e' st2) = review_intervals st"
proof -
  let ?lr = "map (\<lambda>(key, value). (key, case value of PTime t \<Rightarrow> PStr (isoformat e t) | _ \<Rightarrow> value))
               (last_reviewed st)"
  let ?data = "[(''subject_mapping'', subject_mapping st),
                (''weights'', PDict (weights st)),
                (''last_reviewed'', PDict ?lr),
                (''review_intervals'', PDict (review_intervals st))]"
  have w: "\<forall>v \<in> set (map snd (weights st)). serializable v"
    using assms(3) by (auto simp: numbers_def list_all_iff is_number_serializable)
  have i: "\<forall>v \<in> set (map snd (review_intervals st)). serializable v"
    using assms(4) by (auto simp: numbers_def list_all_iff is_number_serializable)
  have l: "\<forall>v \<in> set (map snd ?lr). serializable v"
  proof
    fix v assume "v \<in> set (map snd ?lr)"
    then obtain k u where "(k, u) \<in> set (last_reviewed st)"
        and v: "v = (case u of PTime t \<Rightarrow> PStr (isoformat e t) | _ \<Rightarrow> u)"
      by auto
    then have "never_or_time u"
      using assms(5) by (auto simp: timestamps_def list_all_iff)
    then show "serializable v"
      unfolding v by (cases u) simp_all
  qed
  have saved: "save_weights e st = st\<lparr>weights_file := Doc (PDict ?data)\<rparr>"
    using assms(1,2) w i l
    by (simp add: save_weights_def Let_def filter_numbers [OF assms(3)] filter_numbers [OF assms(4)])
  have loaded_from: "weights_file st2 = Doc (PDict ?data)"
    using assms(7) by (simp add: saved)
  have sub: "sub_mapping ?data ''weights'' = weights st"
      "sub_mapping ?data ''last_reviewed'' = ?lr"
      "sub_mapping ?data ''review_intervals'' = review_intervals st"
    by (simp_all add: sub_mapping_def dict_get_def)
  show ?thesis
    using round_trip_last_reviewed [OF assms(5) [unfolded timestamps_def] assms(6)]
    by (simp add: loaded_from load_weights_def sub)
qed

theorem save_load_round_trip_witness:
  "read_back example_env example_env (last_reviewed boundary_store)
   \<and> weights (empty_store (save_weights example_env boundary_store)) = []
   \<and> weights (load_weights example_env (empty_store (save_weights example_env boundary_store)))
       = [(''S000/a.png'', PNum 0.1), (''S000/b.png'', PNum 10)]
   \<and> last_reviewed
         (load_weights example_env (empty_store (save_weights example_env boundary_store)))
       = [(''S000/a.png'', PTime 0), (''S000/b.png'', PNone)]
   \<and> review_intervals
         (load_weights example_env (empty_store (save_weights example_env boundary_store)))
       = [(''S000/a.png'', PNum 30), (''S000/b.png'', PNum 0.1)]"
proof -
  have h: "write_fault example_env = None" "serializable (subject_mapping boundary_store)"
      "numbers (weights boundary_store)" "numbers (review_intervals boundary_store)"
      "timestamps boundary_store"
      "read_back example_env example_env (last_reviewed boundary_store)"
      "weights_file (empty_store (save_weights example_env boundary_store))
         = weights_file (save_weights example_env boundary_store)"
    by (simp_all add: example_env_def boundary_store_def numbers_def timestamps_def read_back_def
        empty_store_def)
  have "weights (empty_store (save_weights example_env boundary_store)) = []"
    by (simp add: empty_store_def)
  then show ?thesis
    using h(6) save_load_round_trip [OF h] by (simp add: boundary_store_def)
qed

section \<open>What changes the state of an item\<close>

lemma subject_code_0: "subject_code 0 = ''S000''"
  by (simp add: subject_code_def decimal.simps digit_def numeral_2_eq_2)

lemma load_strange_store: "load_weights example_env strange_store = strange_store"
  by (simp add: load_weights_def strange_store_def example_env_def sub_mapping_def dict_get_def)

text \<open>
  C10, as stated, fails twice. The feedback route's direct assignment changes a weight
  without any feedback. And constructing the object again from the saved file resets
  the item: the scan adds default entries under the folder name, and the renaming to the
  subject code writes them over the entries loaded from the file.
\<close>

theorem frame_counterexample:
  "api_update_weight
     \<lparr>req_image_key = Some ''S000/a.png'', req_familiarity = None, req_weight = Some 7\<rparr>
     example_env example_store = Inr (Success, reweighted_store)
   \<and> init example_env strange_store = Inr restarted_store"
proof -
  have "api_update_weight
     \<lparr>req_image_key = Some ''S000/a.png'', req_familiarity = None, req_weight = Some 7\<rparr>
     example_env example_store = Inr (Success, reweighted_store)"
    by (simp add: example_store_def example_env_def reweighted_store_def api_update_weight_def
        encoded_key_def truthy_def save_weights_def Let_def)
  moreover have "init example_env strange_store = Inr restarted_store"
    unfolding init_def load_strange_store
    by (simp add: strange_store_def scan_subjects_def with_defaults_def setdefault_def
        dict_has_def save_weights_def example_env_def Let_def create_subject_mapping_def
        get_subjects_def subject_code_0 update_weights_with_encoded_names_def
        encode_subject_name_def isdigit_def restarted_store_def)
  ultimately show ?thesis ..
qed

lemma kept_or_created_setdefault:
  "kept_or_created dflt d d' k \<Longrightarrow> kept_or_created dflt d (setdefault d' x dflt) k"
  by (auto simp: kept_or_created_def map_of_setdefault split: option.splits)

lemma kept_or_created_refl: "kept_or_created dflt d d k"
  by (simp add: kept_or_created_def)

lemma with_defaults_frame:
  assumes "kept_or_created (PNum 1) d1 (weights s) k"
    and "kept_or_created PNone d2 (last_reviewed s) k"
    and "kept_or_created (PNum 1) d3 (review_intervals s) k"
  shows "kept_or_created (PNum 1) d1 (weights (foldl with_defaults s keys)) k
         \<and> kept_or_created PNone d2 (last_reviewed (foldl with_defaults s keys)) k
         \<and> kept_or_created (PNum 1) d3 (review_intervals (foldl with_defaults s keys)) k"
  using assms
proof (induction keys arbitrary: s)
  case Nil
  then show ?case by simp
next
  case (Cons x keys)
  show ?case
    unfolding foldl_Cons
    by (rule Cons.IH) (simp_all add: with_defaults_def Cons.prems kept_or_created_setdefault)
qed

lemma scan_subjects_frame:
  "kept_or_created (PNum 1) (weights st) (weights (scan_subjects e st)) k
   \<and> kept_or_created PNone (last_reviewed st) (last_reviewed (scan_subjects e st)) k
   \<and> kept_or_created (PNum 1) (review_intervals st) (review_intervals (scan_subjects e st)) k"
  unfolding scan_subjects_def save_weights_memory
  by (rule with_defaults_frame) (rule kept_or_created_refl)+

lemma raw_weight_frame:
  assumes "\<not> truthy (req_familiarity r)" and "api_update_weight r e st = Inr (resp, st')"
  shows "last_reviewed st' = last_reviewed st \<and> review_intervals st' = review_intervals st"
  using assms
  by (auto simp: api_update_weight_def split: option.splits sum.splits if_splits)

text \<open>
  C10, amended. On a constructed object, the selection, the weights route and saving
  leave the three dictionaries as they are; the scan leaves every entry as it is and only
  adds default entries for keys that have none; the feedback route's direct assignment
  leaves last reviews and intervals as they are.
\<close>

theorem frame_of_operations:
  "kept_or_created (PNum 1) (weights st) (weights (snd (perform op e st))) k
   \<and> kept_or_created PNone (last_reviewed st) (last_reviewed (snd (perform op e st))) k
   \<and> kept_or_created (PNum 1) (review_intervals st) (review_intervals (snd (perform op e st))) k
   \<and> (op \<noteq> ScanSubjects \<longrightarrow>
        weights (snd (perform op e st)) = weights st
        \<and> last_reviewed (snd (perform op e st)) = last_reviewed st
        \<and> review_intervals (snd (perform op e st)) = review_intervals st)
   \<and> (\<not> truthy (req_familiarity r) \<and> api_update_weight r e st = Inr (resp, st') \<longrightarrow>
        last_reviewed st' = last_reviewed st \<and> review_intervals st' = review_intervals st)"
proof -
  have "kept_or_created (PNum 1) (weights st) (weights (snd (perform op e st))) k
   \<and> kept_or_created PNone (last_reviewed st) (last_reviewed (snd (perform op e st))) k
   \<and> kept_or_created (PNum 1) (review_intervals st) (review_intervals (snd (perform op e st))) k"
    using scan_subjects_frame [of st e k]
    by (cases op) (simp_all add: perform_def kept_or_created_refl)
  moreover have "op \<noteq> ScanSubjects \<longrightarrow>
        weights (snd (perform op e st)) = weights st
        \<and> last_reviewed (snd (perform op e st)) = last_reviewed st
        \<and> review_intervals (snd (perform op e st)) = review_intervals st"
    by (cases op) (simp_all add: perform_def)
  ultimately show ?thesis
    using raw_weight_frame [of r e st resp st'] by blast
qed

theorem frame_of_operations_witness:
  "map_of (weights (snd (perform ScanSubjects example_env zero_weight_store))) ''S000/a.png''
     = Some (PNum 0)
   \<and> weights (snd (perform (Select [''S000/a.png''] 1) example_env example_store))
       = weights example_store
   \<and> last_reviewed reweighted_store = last_reviewed example_store"
proof -
  have raw: "api_update_weight
     \<lparr>req_image_key = Some ''S000/a.png'', req_familiarity = None, req_weight = Some 7\<rparr>
     example_env example_store = Inr (Success, reweighted_store)"
    by (simp add: example_store_def example_env_def reweighted_store_def api_update_weight_def
        encoded_key_def truthy_def save_weights_def Let_def)
  have a: "map_of (weights zero_weight_store) ''S000/a.png'' = Some (PNum 0)"
    by (simp add: zero_weight_store_def)
  have "map_of (weights (snd (perform ScanSubjects example_env zero_weight_store))) ''S000/a.png''
          = Some (PNum 0)"
    using a frame_of_operations [of zero_weight_store ScanSubjects example_env "''S000/a.png''"]
    by (simp add: kept_or_created_def)
  moreover have "weights (snd (perform (Select [''S000/a.png''] 1) example_env example_store))
       = weights example_store"
    using frame_of_operations [of example_store "Select [''S000/a.png''] 1" example_env]
    by simp
  moreover have "last_reviewed reweighted_store = last_reviewed example_store"
    using raw frame_of_operations [of example_store SaveWeights example_env _
        "\<lparr>req_image_key = Some ''S000/a.png'', req_familiarity = None, req_weight = Some 7\<rparr>"
        Success reweighted_store]
    by (simp add: truthy_def)
  ultimately show ?thesis by blast
qed


end
